theory Spec2Isabelle
  imports Main
begin

section \<open>Time\<close>

text \<open>
  A Python \<^verbatim>\<open>datetime\<close> is modelled as the number of microseconds since a fixed
  epoch (Python's resolution). The lockout tracker reads \<^verbatim>\<open>datetime.now()\<close>
  and the token code reads \<^verbatim>\<open>datetime.now(tz.utc)\<close>; every clock read is an explicit
  argument of the model.

  A \<^verbatim>\<open>timedelta\<close> is kept the way Python normalises it: \<open>days\<close> unbounded,
  \<open>0 \<le> seconds < 86400\<close> and \<open>0 \<le> microseconds < 1000000\<close>.
\<close>

type_synonym datetime = int

record timedelta =
  days :: int
  seconds :: int
  microseconds :: int

definition timedelta_of_microseconds :: "int \<Rightarrow> timedelta" where
  "timedelta_of_microseconds us =
     \<lparr> days = us div 86400000000,
       seconds = (us mod 86400000000) div 1000000,
       microseconds = us mod 1000000 \<rparr>"

definition total_microseconds :: "timedelta \<Rightarrow> int" where
  "total_microseconds d = (days d * 86400 + seconds d) * 1000000 + microseconds d"

text \<open>\<^verbatim>\<open>timedelta(minutes=m)\<close>\<close>

definition timedelta_minutes :: "int \<Rightarrow> timedelta" where
  "timedelta_minutes m = timedelta_of_microseconds (m * 60000000)"

text \<open>\<^verbatim>\<open>a - b\<close> and \<^verbatim>\<open>a + d\<close> on datetimes\<close>

definition datetime_sub :: "datetime \<Rightarrow> datetime \<Rightarrow> timedelta" where
  "datetime_sub a b = timedelta_of_microseconds (a - b)"

definition datetime_add :: "datetime \<Rightarrow> timedelta \<Rightarrow> datetime" where
  "datetime_add a d = a + total_microseconds d"

section \<open>Configuration of the authenticator\<close>

text \<open>
  The traitlets of \<^verbatim>\<open>NativeAuthenticator\<close> that the modelled methods read.
  \<open>allow_self_approval_for\<close> is a compiled pattern or \<^verbatim>\<open>None\<close>; a pattern is
  represented by the truth value of \<^verbatim>\<open>pattern.match(email)\<close>.
  \<open>self_approval_server\<close> holds \<^verbatim>\<open>url\<close>, \<^verbatim>\<open>usr\<close> and \<^verbatim>\<open>pwd\<close>.
  \<open>admin_users\<close> and \<open>allowed_users\<close> come from the host's base class.

  A Python \<^verbatim>\<open>str\<close> is a \<open>string\<close> here, one \<open>char\<close> for each code point, so that
  \<open>length\<close> is Python's \<^verbatim>\<open>len\<close>.
\<close>

record config =
  allow_self_approval_for :: "(string \<Rightarrow> bool) option"
  secret_key :: string
  self_approval_server :: "(string \<times> string \<times> string) option"
  self_approval_email :: "string \<times> string \<times> string"
  check_common_password :: bool
  minimum_password_length :: int
  allowed_failed_logins :: int
  seconds_before_next_try :: int
  enable_signup :: bool
  open_signup :: bool
  ask_email_on_signup :: bool
  admin_users :: "string set"
  allowed_users :: "string set"

section \<open>Brute-force lockout\<close>

text \<open>
  \<^verbatim>\<open>self.login_attempts\<close> is a dict from username to \<^verbatim>\<open>{'count': .., 'time': ..}\<close>.
  Such an entry is never an empty dict, so \<^verbatim>\<open>not self.login_attempts.get(username)\<close>
  holds exactly when the key is absent.
\<close>

record attempt =
  count :: int
  time :: datetime

type_synonym login_attempts = "string \<rightharpoonup> attempt"

definition add_login_attempt :: "login_attempts \<Rightarrow> string \<Rightarrow> datetime \<Rightarrow> login_attempts" where
  "add_login_attempt la username now =
     (case la username of
        None \<Rightarrow> la(username \<mapsto> \<lparr> count = 1, time = now \<rparr>)
      | Some a \<Rightarrow> la(username \<mapsto> \<lparr> count = count a + 1, time = now \<rparr>))"

definition can_try_to_login_again :: "config \<Rightarrow> login_attempts \<Rightarrow> string \<Rightarrow> datetime \<Rightarrow> bool" where
  "can_try_to_login_again cfg la username now =
     (case la username of
        None \<Rightarrow> True
      | Some a \<Rightarrow>
          (let time_last_attempt = datetime_sub now (time a)
           in if seconds time_last_attempt > seconds_before_next_try cfg then True else False))"

definition is_blocked :: "config \<Rightarrow> login_attempts \<Rightarrow> string \<Rightarrow> datetime \<Rightarrow> bool" where
  "is_blocked cfg la username now =
     (case la username of
        None \<Rightarrow> False
      | Some logins \<Rightarrow>
          if count logins < allowed_failed_logins cfg then False
          else if can_try_to_login_again cfg la username now then False
          else True)"

definition successful_login :: "login_attempts \<Rightarrow> string \<Rightarrow> login_attempts" where
  "successful_login la username =
     (case la username of None \<Rightarrow> la | Some a \<Rightarrow> la(username := None))"

text \<open>
  A run of failures: \<^verbatim>\<open>add_login_attempt\<close> called once per clock reading of the list,
  in order.
\<close>

fun add_login_attempts :: "login_attempts \<Rightarrow> string \<Rightarrow> datetime list \<Rightarrow> login_attempts" where
  "add_login_attempts la username [] = la"
| "add_login_attempts la username (t # ts) =
     add_login_attempts (add_login_attempt la username t) username ts"

section \<open>Exceptions\<close>

text \<open>
  The exceptions that leave the modelled methods. \<open>PasswordTooLong\<close> is the
  \<^verbatim>\<open>ValueError\<close> of \<^verbatim>\<open>bcrypt.hashpw\<close> for a password over 72 bytes;
  \<open>UnicodeEncodeError\<close> is raised by \<^verbatim>\<open>str.encode()\<close> on a lone surrogate.
\<close>

datatype value_error =
    BadSignature string
  | URLExpired
  | InvalidIsoformat
  | ShortSecretKey
  | PasswordTooLong

datatype exn =
    ValueError value_error
  | AttributeError
  | TypeError
  | UnicodeEncodeError
  | SMTPException
  | IntegrityError

section \<open>Collaborators outside the repository\<close>

text \<open>
  The payload that \<^verbatim>\<open>generate_approval_url\<close> signs is the dict
  \<^verbatim>\<open>{"username": username, "expire": when.isoformat()}\<close>; \<^verbatim>\<open>validate_slug\<close>
  returns it with \<^verbatim>\<open>"expire"\<close> replaced by the parsed datetime.
\<close>

record token_obj =
  obj_username :: string
  obj_expire :: string

record slug_data =
  data_username :: string
  data_expire :: datetime

record email_message =
  msg_from :: string
  msg_subject :: string
  msg_content :: string
  msg_to :: string

text \<open>
  A row of the \<^verbatim>\<open>users_info\<close> table. The class \<^verbatim>\<open>UserInfo\<close> lives in
  \<^verbatim>\<open>orm.py\<close>; the fields are the ones the two source files read and write.
\<close>

record user_info =
  username :: string
  password :: string
  is_authorized :: bool
  email :: "string option"
  has_2fa :: bool
  otp_secret :: string

text \<open>
  The keyword arguments of \<^verbatim>\<open>create_user\<close> (the signup handler passes \<^verbatim>\<open>email\<close>
  and \<^verbatim>\<open>has_2fa\<close>, the import of a legacy database passes none) and the dict
  \<^verbatim>\<open>infos\<close> handed to the constructor of \<^verbatim>\<open>UserInfo\<close>.
\<close>

record kwargs =
  kw_email :: "string option"
  kw_has_2fa :: "bool option"

record infos =
  infos_username :: string
  infos_password :: string
  infos_email :: "string option"
  infos_has_2fa :: "bool option"
  infos_is_authorized :: "bool option"

text \<open>
  What the code calls and this repository does not define is a parameter of the model:
  \<^item> \<open>normalize_username\<close> and \<open>base_validate_username\<close>: the host's
    \<^verbatim>\<open>Authenticator.normalize_username\<close> and \<^verbatim>\<open>Authenticator.validate_username\<close>;
  \<^item> \<open>hashpw\<close>: \<^verbatim>\<open>bcrypt.hashpw(password.encode(), salt)\<close>, the hash or the
    exception that \<^verbatim>\<open>encode\<close> or \<^verbatim>\<open>hashpw\<close> raises; the salt drawn by
    \<^verbatim>\<open>bcrypt.gensalt()\<close> is an argument of the operations that hash;
  \<^item> \<open>common_credentials\<close>: the lines of \<^verbatim>\<open>common-credentials.txt\<close>;
  \<^item> \<open>sign_object\<close> and \<open>unsign_object\<close>: \<^verbatim>\<open>Signer(key).sign_object(obj)\<close> and
    \<^verbatim>\<open>Signer(key).unsign_object(slug)\<close> of \<^verbatim>\<open>django.core.signing\<close>; \<open>Inl\<close>
    carries the message of \<^verbatim>\<open>BadSignature\<close>;
  \<^item> \<open>isoformat\<close> and \<open>fromisoformat\<close>: the methods of \<^verbatim>\<open>datetime\<close>;
    \<open>None\<close> is the \<^verbatim>\<open>ValueError\<close> of a string that does not parse;
  \<^item> \<open>str_format\<close>: \<^verbatim>\<open>template.format(approval_url=url)\<close>;
  \<^item> \<open>send_mail\<close>: the SMTP session of \<^verbatim>\<open>send_approval_email\<close> (connect, login when
    a server is configured, \<^verbatim>\<open>send_message\<close>, \<^verbatim>\<open>quit\<close>); \<open>False\<close> when it raises;
  \<^item> \<open>new_user_info\<close>: the constructor \<^verbatim>\<open>UserInfo(**infos)\<close> of \<^verbatim>\<open>orm.py\<close>;
    \<open>None\<close> is its \<^verbatim>\<open>AssertionError\<close>;
  \<^item> \<open>is_valid_password\<close> and \<open>is_valid_token\<close>: the methods of \<^verbatim>\<open>UserInfo\<close>
    that check a password against the stored hash and a one-time code against
    \<open>otp_secret\<close>.
\<close>

record env =
  normalize_username :: "string \<Rightarrow> string"
  base_validate_username :: "string \<Rightarrow> bool"
  hashpw :: "string \<Rightarrow> string \<Rightarrow> exn + string"
  common_credentials :: "string list"
  sign_object :: "string \<Rightarrow> token_obj \<Rightarrow> string"
  unsign_object :: "string \<Rightarrow> string \<Rightarrow> string + token_obj"
  isoformat :: "datetime \<Rightarrow> string"
  fromisoformat :: "string \<Rightarrow> datetime option"
  str_format :: "string \<Rightarrow> string \<Rightarrow> string"
  send_mail :: "(string \<times> string \<times> string) option \<Rightarrow> email_message \<Rightarrow> bool"
  new_user_info :: "infos \<Rightarrow> user_info option"
  is_valid_password :: "user_info \<Rightarrow> string \<Rightarrow> bool"
  is_valid_token :: "user_info \<Rightarrow> string option \<Rightarrow> bool"

section \<open>The record store\<close>

text \<open>
  The table \<^verbatim>\<open>users_info\<close>, keyed by the unique column \<^verbatim>\<open>username\<close>.
\<close>

type_synonym db = "string \<rightharpoonup> user_info"

text \<open>
  Modelled from the spec: \<^verbatim>\<open>UserInfo.find\<close> is defined in \<^verbatim>\<open>orm.py\<close>, which is not
  among the sources. Section 6 of the specification: \<^verbatim>\<open>FindByUsername(username)\<close>
  returns the record or absent.
\<close>

definition UserInfo_find :: "db \<Rightarrow> string \<Rightarrow> user_info option" where
  "UserInfo_find d name = d name"

text \<open>
  Modelled from the spec: \<^verbatim>\<open>db.add(user_info); db.commit()\<close> against the unique
  username column. Section 6: \<^verbatim>\<open>Insert(record)\<close> is ok or a conflict.
\<close>

definition db_add :: "db \<Rightarrow> user_info \<Rightarrow> exn + db" where
  "db_add d u = (case d (username u) of
                   None \<Rightarrow> Inr (d(username u \<mapsto> u))
                 | Some v \<Rightarrow> Inl IntegrityError)"

text \<open>
  Modelled from the spec: \<^verbatim>\<open>UserInfo.change_authorization\<close> is defined in
  \<^verbatim>\<open>orm.py\<close>. Section 2 of the specification describes the confirm request as a
  record-store update that marks the record authorized; a missing record has no
  attribute to update.
\<close>

definition UserInfo_change_authorization :: "db \<Rightarrow> string \<Rightarrow> exn + db" where
  "UserInfo_change_authorization d name =
     (case d name of
        None \<Rightarrow> Inl AttributeError
      | Some u \<Rightarrow> Inr (d(name \<mapsto> u\<lparr> is_authorized := True \<rparr>)))"

section \<open>The authenticator\<close>

subsection \<open>Initialisation of self-approval\<close>

text \<open>
  \<^verbatim>\<open>setup_self_approval\<close>: with a pattern configured, \<^verbatim>\<open>ask_email_on_signup\<close> is
  forced and a secret key shorter than 8 characters raises \<^verbatim>\<open>ValueError\<close>. The log
  line for a conflicting \<^verbatim>\<open>open_signup\<close> and the configuration of Django's settings
  change nothing the model holds.
\<close>

definition setup_self_approval :: "config \<Rightarrow> exn + config" where
  "setup_self_approval cfg =
     (case allow_self_approval_for cfg of
        None \<Rightarrow> Inr cfg
      | Some pattern \<Rightarrow>
          (let cfg' = cfg\<lparr> ask_email_on_signup := True \<rparr>
           in if length (secret_key cfg') < 8 then Inl (ValueError ShortSecretKey)
              else Inr cfg'))"

subsection \<open>Users and passwords\<close>

definition get_user :: "env \<Rightarrow> db \<Rightarrow> string \<Rightarrow> user_info option" where
  "get_user e d name = UserInfo_find d (normalize_username e name)"

definition user_exists :: "env \<Rightarrow> db \<Rightarrow> string \<Rightarrow> bool" where
  "user_exists e d name = (get_user e d name \<noteq> None)"

definition is_password_common :: "env \<Rightarrow> string \<Rightarrow> bool" where
  "is_password_common e pw = (pw \<in> set (common_credentials e))"

definition is_password_strong :: "config \<Rightarrow> env \<Rightarrow> string \<Rightarrow> bool" where
  "is_password_strong cfg e pw =
     (let checks = [int (length pw) \<ge> minimum_password_length cfg]
                   @ (if check_common_password cfg then [\<not> is_password_common e pw] else [])
      in list_all (\<lambda>b. b) checks)"

definition validate_username :: "env \<Rightarrow> string \<Rightarrow> bool" where
  "validate_username e name =
     (let invalid_chars = [CHR '','', CHR '' '']
      in if list_ex (\<lambda>char. char \<in> set name) invalid_chars then False
         else base_validate_username e name)"

subsection \<open>Authentication\<close>

text \<open>
  The request data: \<^verbatim>\<open>data['username']\<close>, \<^verbatim>\<open>data['password']\<close> and
  \<^verbatim>\<open>data.get('2fa')\<close>. The result is the returned username (\<open>None\<close> for a bare
  \<^verbatim>\<open>return\<close>) and the lockout table afterwards. \<open>t_blocked\<close> and \<open>t_attempt\<close> are
  the clock readings of \<^verbatim>\<open>is_blocked\<close> and of \<^verbatim>\<open>add_login_attempt\<close>.
\<close>

record login_data =
  login_username :: string
  login_password :: string
  login_2fa :: "string option"

definition authenticate ::
  "config \<Rightarrow> env \<Rightarrow> db \<Rightarrow> login_attempts \<Rightarrow> datetime \<Rightarrow> datetime \<Rightarrow> login_data
     \<Rightarrow> string option \<times> login_attempts" where
  "authenticate cfg e d la t_blocked t_attempt data =
     (let name = normalize_username e (login_username data);
          pw = login_password data
      in case get_user e d name of
           None \<Rightarrow> (None, la)
         | Some user \<Rightarrow>
             if allowed_failed_logins cfg \<noteq> 0 \<and> is_blocked cfg la name t_blocked
             then (None, la)
             else
               (let validations =
                      [is_authorized user, is_valid_password e user pw]
                      @ (if has_2fa user then [is_valid_token e user (login_2fa data)] else [])
                in if list_all (\<lambda>b. b) validations
                   then (Some name, successful_login la name)
                   else (None, add_login_attempt la name t_attempt)))"

subsection \<open>Approval tokens\<close>

definition generate_approval_url ::
  "config \<Rightarrow> env \<Rightarrow> string \<Rightarrow> datetime option \<Rightarrow> datetime \<Rightarrow> string" where
  "generate_approval_url cfg e name when now =
     (let when' = (case when of
                     None \<Rightarrow> datetime_add now (timedelta_minutes 15)
                   | Some w \<Rightarrow> w);
          u = sign_object e (secret_key cfg)
                \<lparr> obj_username = name, obj_expire = isoformat e when' \<rparr>
      in ''/confirm/'' @ u)"

text \<open>
  \<^verbatim>\<open>AuthorizeHandler.validate_slug\<close>: every failure is a \<^verbatim>\<open>ValueError\<close>, that of
  \<^verbatim>\<open>fromisoformat\<close> included.
\<close>

definition validate_slug :: "env \<Rightarrow> string \<Rightarrow> string \<Rightarrow> datetime \<Rightarrow> exn + slug_data" where
  "validate_slug e slug key now =
     (case unsign_object e key slug of
        Inl m \<Rightarrow> Inl (ValueError (BadSignature m))
      | Inr obj \<Rightarrow>
          (case fromisoformat e (obj_expire obj) of
             None \<Rightarrow> Inl (ValueError InvalidIsoformat)
           | Some expire \<Rightarrow>
               if now > expire then Inl (ValueError URLExpired)
               else Inr \<lparr> data_username = obj_username obj, data_expire = expire \<rparr>))"

definition send_approval_email :: "config \<Rightarrow> env \<Rightarrow> string \<Rightarrow> string \<Rightarrow> exn + unit" where
  "send_approval_email cfg e dest url =
     (let msg = \<lparr> msg_from = fst (self_approval_email cfg),
                  msg_subject = fst (snd (self_approval_email cfg)),
                  msg_content = str_format e (snd (snd (self_approval_email cfg))) url,
                  msg_to = dest \<rparr>
      in if send_mail e (self_approval_server cfg) msg then Inr () else Inl SMTPException)"

subsection \<open>Signup and password change\<close>

text \<open>
  \<^verbatim>\<open>create_user\<close> returns the new record, or \<^verbatim>\<open>None\<close> by a bare \<^verbatim>\<open>return\<close>, or
  raises; the second component is the record store afterwards. An exception of
  \<^verbatim>\<open>bcrypt.hashpw(pw.encode(), bcrypt.gensalt())\<close> is not caught. A missing email
  (\<^verbatim>\<open>None\<close>) makes \<^verbatim>\<open>pattern.match\<close> raise \<^verbatim>\<open>TypeError\<close>.
\<close>

definition create_user ::
  "config \<Rightarrow> env \<Rightarrow> db \<Rightarrow> string \<Rightarrow> string \<Rightarrow> kwargs \<Rightarrow> string \<Rightarrow> datetime
     \<Rightarrow> (exn + user_info option) \<times> db" where
  "create_user cfg e d raw_name pw kw salt now =
     (let name = normalize_username e raw_name
      in if user_exists e d name then (Inr None, d)
         else if \<not> is_password_strong cfg e pw \<or> \<not> validate_username e name
         then (Inr None, d)
         else if \<not> enable_signup cfg then (Inr None, d)
         else
           (case hashpw e pw salt of
              Inl x \<Rightarrow> (Inl x, d)
            | Inr encoded_pw \<Rightarrow>
               (let authed = admin_users cfg \<union> allowed_users cfg;
                    infos = \<lparr> infos_username = name, infos_password = encoded_pw,
                              infos_email = kw_email kw, infos_has_2fa = kw_has_2fa kw,
                              infos_is_authorized =
                                (if open_signup cfg \<or> name \<in> authed then Some True else None) \<rparr>
                in case new_user_info e infos of
                     None \<Rightarrow> (Inr None, d)
                   | Some user_info \<Rightarrow>
                       (let mailed =
                              (case allow_self_approval_for cfg of
                                 None \<Rightarrow> Inr ()
                               | Some pattern \<Rightarrow>
                                   (case email user_info of
                                      None \<Rightarrow> Inl TypeError
                                    | Some address \<Rightarrow>
                                        if pattern address
                                        then send_approval_email cfg e address
                                               (generate_approval_url cfg e name None now)
                                        else Inr ()))
                        in case mailed of
                             Inl x \<Rightarrow> (Inl x, d)
                           | Inr _ \<Rightarrow>
                               (case db_add d user_info of
                                  Inl x \<Rightarrow> (Inl x, d)
                                | Inr d' \<Rightarrow> (Inr (Some user_info), d'))))))"

text \<open>
  \<^verbatim>\<open>change_password\<close>: the record is looked up, the new password is hashed, and the
  hash is assigned to \<^verbatim>\<open>user.password\<close> and committed. Nothing is caught: an
  exception of \<^verbatim>\<open>bcrypt.hashpw(new_password.encode(), bcrypt.gensalt())\<close> leaves the
  method before the assignment, and with no record the assignment raises
  \<^verbatim>\<open>AttributeError\<close>.
\<close>

definition change_password ::
  "config \<Rightarrow> env \<Rightarrow> db \<Rightarrow> string \<Rightarrow> string \<Rightarrow> string \<Rightarrow> exn + db" where
  "change_password cfg e d name new_password salt =
     (let user = get_user e d name
      in case hashpw e new_password salt of
           Inl x \<Rightarrow> Inl x
         | Inr hashed \<Rightarrow>
             (case user of
                None \<Rightarrow> Inl AttributeError
              | Some u \<Rightarrow> Inr (d(normalize_username e name \<mapsto> u\<lparr> password := hashed \<rparr>))))"

subsection \<open>The confirm handler\<close>

text \<open>
  \<^verbatim>\<open>AuthorizeHandler.get\<close>: the message of the rendered page and the record store
  afterwards, or the exception that leaves the handler. Only \<^verbatim>\<open>ValueError\<close> is caught
  around \<^verbatim>\<open>validate_slug\<close>.
\<close>

definition AuthorizeHandler_get ::
  "config \<Rightarrow> env \<Rightarrow> db \<Rightarrow> string \<Rightarrow> datetime \<Rightarrow> exn + (string \<times> db)" where
  "AuthorizeHandler_get cfg e d slug now =
     (let validated =
            (case allow_self_approval_for cfg of
               None \<Rightarrow> Inr None
             | Some pattern \<Rightarrow>
                 (case validate_slug e slug (secret_key cfg) now of
                    Inr data \<Rightarrow> Inr (Some data)
                  | Inl (ValueError v) \<Rightarrow> Inr None
                  | Inl x \<Rightarrow> Inl x))
      in case validated of
           Inl x \<Rightarrow> Inl x
         | Inr None \<Rightarrow> Inr (''Invalid URL'', d)
         | Inr (Some data) \<Rightarrow>
             (let name = data_username data
              in case UserInfo_find d name of
                   None \<Rightarrow> Inl AttributeError
                 | Some usr \<Rightarrow>
                     if \<not> is_authorized usr
                     then (case UserInfo_change_authorization d name of
                             Inl x \<Rightarrow> Inl x
                           | Inr d' \<Rightarrow> Inr (name @ '' has been authorized'', d'))
                     else Inr (name @ '' was already authorized'', d)))"

section \<open>Concrete inputs\<close>

text \<open>A configuration used to evaluate the definitions on concrete inputs.\<close>

definition example_config :: config where
  "example_config =
     \<lparr> allow_self_approval_for = None,
       secret_key = '''',
       self_approval_server = None,
       self_approval_email = (''do-not-reply@my-domain.com'', ''Welcome'', ''Navigate to ''),
       check_common_password = False,
       minimum_password_length = 8,
       allowed_failed_logins = 3,
       seconds_before_next_try = 600,
       enable_signup = True,
       open_signup = False,
       ask_email_on_signup = False,
       admin_users = {},
       allowed_users = {} \<rparr>"

text \<open>
  Stand-ins for the collaborators, simple enough to compute with. Hashing refuses a
  password of more than 72 characters, as \<^verbatim>\<open>bcrypt\<close> 5 does. The signer keeps
  Django's shape, \<^verbatim>\<open>value + ':' + signature\<close>, split at the last separator; its
  signature is no real MAC. Timestamps are printed as 18 decimal digits.
\<close>

definition test_signature :: "string \<Rightarrow> string \<Rightarrow> string" where
  "test_signature key v = map (\<lambda>c. if c \<in> set key then CHR ''1'' else CHR ''0'') v"

definition test_sign_object :: "string \<Rightarrow> token_obj \<Rightarrow> string" where
  "test_sign_object key obj =
     (let v = obj_username obj @ ''|'' @ obj_expire obj
      in v @ '':'' @ test_signature key v)"

definition test_unsign_object :: "string \<Rightarrow> string \<Rightarrow> string + token_obj" where
  "test_unsign_object key signed =
     (if CHR '':'' \<notin> set signed then Inl ''No separator found in value''
      else
        (let sig = rev (takeWhile (\<lambda>c. c \<noteq> CHR '':'') (rev signed));
             v = rev (drop 1 (dropWhile (\<lambda>c. c \<noteq> CHR '':'') (rev signed)))
         in if sig = test_signature key v
            then Inr \<lparr> obj_username = takeWhile (\<lambda>c. c \<noteq> CHR ''|'') v,
                       obj_expire = drop 1 (dropWhile (\<lambda>c. c \<noteq> CHR ''|'') v) \<rparr>
            else Inl ''Signature does not match''))"

definition test_isoformat :: "datetime \<Rightarrow> string" where
  "test_isoformat t = map (\<lambda>k. ''0123456789'' ! nat (t div 10 ^ k mod 10)) (rev [0..<18])"

definition test_fromisoformat :: "string \<Rightarrow> datetime option" where
  "test_fromisoformat s =
     (if length s = 18 \<and> list_all (\<lambda>c. c \<in> set ''0123456789'') s
      then Some (foldl (\<lambda>acc c. 10 * acc
                   + int (length (takeWhile (\<lambda>x. x \<noteq> c) ''0123456789''))) 0 s)
      else None)"

definition test_new_user_info :: "infos \<Rightarrow> user_info option" where
  "test_new_user_info i =
     (if infos_email i = Some ''not an address'' then None
      else Some \<lparr> username = infos_username i,
                  password = infos_password i,
                  is_authorized = (infos_is_authorized i = Some True),
                  email = infos_email i,
                  has_2fa = (infos_has_2fa i = Some True),
                  otp_secret = '''' \<rparr>)"

definition test_env :: env where
  "test_env =
     \<lparr> normalize_username = (\<lambda>name. name),
       base_validate_username = (\<lambda>name. name \<noteq> [] \<and> CHR ''/'' \<notin> set name),
       hashpw = (\<lambda>pw salt. if length pw > 72 then Inl (ValueError PasswordTooLong)
                            else Inr (salt @ ''$'' @ pw)),
       common_credentials = [''password'', ''123456''],
       sign_object = test_sign_object,
       unsign_object = test_unsign_object,
       isoformat = test_isoformat,
       fromisoformat = test_fromisoformat,
       str_format = (\<lambda>template url. template @ url),
       send_mail = (\<lambda>server msg. msg_to msg \<noteq> ''bounce@my-domain.com''),
       new_user_info = test_new_user_info,
       is_valid_password =
         (\<lambda>user pw. drop 1 (dropWhile (\<lambda>c. c \<noteq> CHR ''$'') (password user)) = pw),
       is_valid_token = (\<lambda>user code. code = Some (otp_secret user)) \<rparr>"

text \<open>The example configuration with self-approval for every address.\<close>

definition approval_config :: config where
  "approval_config =
     example_config\<lparr> allow_self_approval_for := Some (\<lambda>address. True),
                      secret_key := ''12345678'' \<rparr>"

text \<open>Two stored records: \<open>alice\<close> is pending, \<open>dave\<close> is authorized.\<close>

definition alice :: user_info where
  "alice = \<lparr> username = ''alice'', password = ''s$correct horse'', is_authorized = False,
             email = Some ''alice@my-domain.com'', has_2fa = False, otp_secret = '''' \<rparr>"

definition dave :: user_info where
  "dave = \<lparr> username = ''dave'', password = ''s$battery staple'', is_authorized = True,
            email = Some ''dave@my-domain.com'', has_2fa = False, otp_secret = '''' \<rparr>"

definition test_db :: db where
  "test_db = [''alice'' \<mapsto> alice, ''dave'' \<mapsto> dave]"

section \<open>Properties of the lockout tracker\<close>

lemma add_login_attempt_same:
  "add_login_attempt la u t u =
     Some \<lparr> count = (case la u of None \<Rightarrow> 1 | Some a \<Rightarrow> count a + 1), time = t \<rparr>"
  by (simp add: add_login_attempt_def split: option.splits)

lemma add_login_attempts_count:
  "ts \<noteq> [] \<Longrightarrow>
   add_login_attempts la u ts u =
     Some \<lparr> count = (case la u of None \<Rightarrow> 0 | Some a \<Rightarrow> count a) + int (length ts),
            time = last ts \<rparr>"
proof (induction ts arbitrary: la)
  case Nil
  then show ?case by simp
next
  case (Cons t ts)
  show ?case
  proof (cases "ts = []")
    case True
    then show ?thesis
      by (simp add: add_login_attempt_same split: option.splits)
  next
    case False
    from Cons.IH [OF False, of "add_login_attempt la u t"] False show ?thesis
      by (simp add: add_login_attempt_same split: option.splits)
  qed
qed

text \<open>
  Within one day, the tracker unblocks once the whole seconds elapsed exceed the bound.
\<close>

lemma is_blocked_false_within_a_day:
  assumes "la u = Some a"
    and "0 \<le> now - time a" and "now - time a < 86400000000"
    and "(now - time a) div 1000000 > seconds_before_next_try cfg"
  shows "\<not> is_blocked cfg la u now"
  using assms
  by (simp add: is_blocked_def can_try_to_login_again_def datetime_sub_def
      timedelta_of_microseconds_def)

text \<open>
  C1. Claimed: a blocked user is unblocked whenever the time elapsed since the last
  recorded failure exceeds \<open>seconds_before_next_try\<close>, also after a day or more.
  The code compares the \<open>seconds\<close> field of the elapsed \<^verbatim>\<open>timedelta\<close>, which leaves the
  days out: with three recorded failures, a threshold of three and a window of 600
  seconds, a user whose last failure is one day and five seconds old is still blocked.
\<close>

theorem is_blocked_after_one_day_and_five_seconds:
  "is_blocked example_config
       (Map.empty(''alice'' \<mapsto> \<lparr> count = 3, time = 0 \<rparr>)) ''alice'' 86405000000 = True
   \<and> total_microseconds (datetime_sub 86405000000 0) > 600 * 1000000"
  by (simp add: is_blocked_def can_try_to_login_again_def datetime_sub_def
      timedelta_of_microseconds_def total_microseconds_def example_config_def)

lemma seconds_within_window:
  assumes "0 \<le> x" and "x \<le> s * 1000000"
  shows "seconds (timedelta_of_microseconds x) \<le> s"
proof -
  from assms(1) have "x mod 86400000000 \<le> x"
    by (rule zmod_le_nonneg_dividend)
  with assms(2) have "x mod 86400000000 \<le> s * 1000000"
    by simp
  then have "(x mod 86400000000) div 1000000 \<le> (s * 1000000) div 1000000"
    by (rule zdiv_mono1) simp
  then show ?thesis
    by (simp add: timedelta_of_microseconds_def)
qed

lemma is_blocked_inside_window:
  assumes "la u = Some a" and "allowed_failed_logins cfg \<le> count a"
    and "time a \<le> now" and "now - time a \<le> seconds_before_next_try cfg * 1000000"
  shows "is_blocked cfg la u now"
proof -
  from assms(3,4) have "seconds (datetime_sub now (time a)) \<le> seconds_before_next_try cfg"
    unfolding datetime_sub_def by (intro seconds_within_window) simp_all
  with assms(1,2) show ?thesis
    by (simp add: is_blocked_def can_try_to_login_again_def)
qed

lemma not_blocked_below_threshold:
  assumes "la u = None" and "int (length ts) < allowed_failed_logins cfg"
  shows "\<not> is_blocked cfg (add_login_attempts la u ts) u now"
proof (cases "ts = []")
  case True
  with assms(1) show ?thesis by (simp add: is_blocked_def)
next
  case False
  from add_login_attempts_count [OF False, of la u] assms show ?thesis
    by (simp add: is_blocked_def)
qed

text \<open>
  C6. With no recorded failure a username is not blocked, at any time. Starting with
  no entry, fewer than \<open>allowed_failed_logins\<close> consecutive failures do not block,
  and exactly \<open>allowed_failed_logins\<close> of them block at once: \<^verbatim>\<open>is_blocked\<close> is true
  at every clock reading \<open>now\<close> from the last failure until
  \<open>seconds_before_next_try\<close> seconds after it. A failure recorded at \<open>t\<close> while an
  entry at or over the threshold exists (after the window of the earlier failures has
  elapsed, for instance) blocks at once again, from \<open>t\<close> until
  \<open>seconds_before_next_try\<close> seconds after \<open>t\<close>. The lockout is enabled
  (\<open>allowed_failed_logins > 0\<close>).
\<close>

theorem is_blocked_lifecycle:
  assumes "0 < allowed_failed_logins cfg"
  shows "(la u = None \<longrightarrow> \<not> is_blocked cfg la u now)
       \<and> (la u = None \<and> int (length ts) < allowed_failed_logins cfg
            \<longrightarrow> \<not> is_blocked cfg (add_login_attempts la u ts) u now)
       \<and> (la u = None \<and> int (length ts) = allowed_failed_logins cfg
            \<and> last ts \<le> now \<and> now - last ts \<le> seconds_before_next_try cfg * 1000000
            \<longrightarrow> is_blocked cfg (add_login_attempts la u ts) u now)
       \<and> (la u = Some a \<and> allowed_failed_logins cfg \<le> count a
            \<and> t \<le> now \<and> now - t \<le> seconds_before_next_try cfg * 1000000
            \<longrightarrow> is_blocked cfg (add_login_attempt la u t) u now)"
proof (intro conjI impI)
  assume "la u = None"
  then show "\<not> is_blocked cfg la u now"
    by (simp add: is_blocked_def)
next
  assume "la u = None \<and> int (length ts) < allowed_failed_logins cfg"
  then show "\<not> is_blocked cfg (add_login_attempts la u ts) u now"
    by (simp add: not_blocked_below_threshold)
next
  assume h: "la u = None \<and> int (length ts) = allowed_failed_logins cfg
      \<and> last ts \<le> now \<and> now - last ts \<le> seconds_before_next_try cfg * 1000000"
  with assms have ne: "ts \<noteq> []" by auto
  from add_login_attempts_count [OF ne, of la u] h
  have entry: "add_login_attempts la u ts u =
          Some \<lparr> count = allowed_failed_logins cfg, time = last ts \<rparr>"
    by simp
  from h show "is_blocked cfg (add_login_attempts la u ts) u now"
    by (intro is_blocked_inside_window [where la = "add_login_attempts la u ts" and u = u,
          OF entry]) simp_all
next
  assume h: "la u = Some a \<and> allowed_failed_logins cfg \<le> count a
      \<and> t \<le> now \<and> now - t \<le> seconds_before_next_try cfg * 1000000"
  then have entry: "add_login_attempt la u t u = Some \<lparr> count = count a + 1, time = t \<rparr>"
    by (simp add: add_login_attempt_same)
  from h show "is_blocked cfg (add_login_attempt la u t) u now"
    by (intro is_blocked_inside_window [where la = "add_login_attempt la u t" and u = u,
          OF entry]) simp_all
qed

theorem is_blocked_lifecycle_witness:
  "\<not> is_blocked example_config Map.empty ''alice'' 5
   \<and> \<not> is_blocked example_config (add_login_attempts Map.empty ''alice'' [1, 2]) ''alice'' 2
   \<and> is_blocked example_config (add_login_attempts Map.empty ''alice'' [1, 2, 3]) ''alice'' 3
   \<and> is_blocked example_config (add_login_attempts Map.empty ''alice'' [1, 2, 3]) ''alice''
       600000003
   \<and> \<not> is_blocked example_config (Map.empty(''alice'' \<mapsto> \<lparr> count = 3, time = 0 \<rparr>))
         ''alice'' 700000000
   \<and> is_blocked example_config
       (add_login_attempt (Map.empty(''alice'' \<mapsto> \<lparr> count = 3, time = 0 \<rparr>)) ''alice'' 700000000)
       ''alice'' 700000001"
proof -
  have elapsed: "\<not> is_blocked example_config
      (Map.empty(''alice'' \<mapsto> \<lparr> count = 3, time = 0 \<rparr>)) ''alice'' 700000000"
    by (simp add: is_blocked_def can_try_to_login_again_def datetime_sub_def
        timedelta_of_microseconds_def example_config_def)
  have enabled: "0 < allowed_failed_logins example_config"
    by (simp add: example_config_def)
  from is_blocked_lifecycle [OF enabled, of Map.empty "''alice''" 5 "[1, 2]"]
  have none: "\<not> is_blocked example_config Map.empty ''alice'' 5"
    by simp
  from is_blocked_lifecycle [OF enabled, of Map.empty "''alice''" 2 "[1, 2]"]
  have below: "\<not> is_blocked example_config
      (add_login_attempts Map.empty ''alice'' [1, 2]) ''alice'' 2"
    by (simp add: example_config_def)
  from is_blocked_lifecycle [OF enabled, of Map.empty "''alice''" 3 "[1, 2, 3]"]
  have at_once: "is_blocked example_config
      (add_login_attempts Map.empty ''alice'' [1, 2, 3]) ''alice'' 3"
    by (simp add: example_config_def)
  from is_blocked_lifecycle [OF enabled, of Map.empty "''alice''" 600000003 "[1, 2, 3]"]
  have window: "is_blocked example_config
      (add_login_attempts Map.empty ''alice'' [1, 2, 3]) ''alice'' 600000003"
    by (simp add: example_config_def)
  from is_blocked_lifecycle [OF enabled,
      of "Map.empty(''alice'' \<mapsto> \<lparr> count = 3, time = 0 \<rparr>)" "''alice''" 700000001 "[]"
        "\<lparr> count = 3, time = 0 \<rparr>" 700000000]
  have again: "is_blocked example_config
      (add_login_attempt (Map.empty(''alice'' \<mapsto> \<lparr> count = 3, time = 0 \<rparr>)) ''alice'' 700000000)
      ''alice'' 700000001"
    by (simp add: example_config_def)
  from none below at_once window elapsed again show ?thesis
    by (intro conjI)
qed

section \<open>Properties of the approval tokens\<close>

lemma datetime_add_minutes_15:
  "datetime_add now (timedelta_minutes 15) = now + 900000000"
  by (simp add: datetime_add_def timedelta_minutes_def timedelta_of_microseconds_def
      total_microseconds_def)

text \<open>
  What \<^verbatim>\<open>validate_slug\<close> returns on a freshly generated token, given that the signer
  gives the signed payload back and that the timestamp survives its ISO format.
\<close>

lemma validate_generated_slug:
  assumes "unsign_object e (secret_key cfg)
             (sign_object e (secret_key cfg)
                \<lparr> obj_username = name, obj_expire = isoformat e expire \<rparr>)
           = Inr \<lparr> obj_username = name, obj_expire = isoformat e expire \<rparr>"
    and "fromisoformat e (isoformat e expire) = Some expire"
    and "expire = (case w of None \<Rightarrow> now + 900000000 | Some t \<Rightarrow> t)"
  shows "validate_slug e
           (drop (length ''/confirm/'') (generate_approval_url cfg e name w now))
           (secret_key cfg) now'
         = (if now' > expire then Inl (ValueError URLExpired)
            else Inr \<lparr> data_username = name, data_expire = expire \<rparr>)"
  using assms
  by (simp add: validate_slug_def generate_approval_url_def datetime_add_minutes_15
      split: option.splits)

lemma test_token_alice:
  "unsign_object test_env (secret_key approval_config)
     (sign_object test_env (secret_key approval_config)
        \<lparr> obj_username = ''alice'', obj_expire = isoformat test_env 900001000 \<rparr>)
   = Inr \<lparr> obj_username = ''alice'', obj_expire = isoformat test_env 900001000 \<rparr>"
  by code_simp

lemma test_iso_900001000:
  "fromisoformat test_env (isoformat test_env 900001000) = Some 900001000"
  by code_simp

text \<open>
  C2. A token generated by \<^verbatim>\<open>generate_approval_url\<close> for \<open>name\<close>, with the default
  window of 15 minutes (\<open>w = None\<close>) or an explicit expiry, and verified at an instant
  \<open>now'\<close> not after that expiry (at once, in particular) gives \<open>name\<close> back without
  error (900000000 microseconds are the 15 minutes). The token is the URL without its
  prefix \<^verbatim>\<open>/confirm/\<close>. The first two premises
  are the contracts of the signer and of the ISO format at this payload; the length of
  the secret plays no part.
\<close>

theorem token_round_trip:
  assumes "unsign_object e (secret_key cfg)
             (sign_object e (secret_key cfg)
                \<lparr> obj_username = name, obj_expire = isoformat e expire \<rparr>)
           = Inr \<lparr> obj_username = name, obj_expire = isoformat e expire \<rparr>"
    and "fromisoformat e (isoformat e expire) = Some expire"
    and "expire = (case w of None \<Rightarrow> now + 900000000 | Some t \<Rightarrow> t)"
    and "now' \<le> expire"
  shows "validate_slug e
           (drop (length ''/confirm/'') (generate_approval_url cfg e name w now))
           (secret_key cfg) now'
         = Inr \<lparr> data_username = name, data_expire = expire \<rparr>"
  using validate_generated_slug [OF assms(1-3), of now'] assms(4) by simp

theorem token_round_trip_witness:
  "8 \<le> length (secret_key approval_config)
   \<and> validate_slug test_env
       (drop (length ''/confirm/'')
          (generate_approval_url approval_config test_env ''alice'' None 1000))
       (secret_key approval_config) 1000
     = Inr \<lparr> data_username = ''alice'', data_expire = 900001000 \<rparr>"
  using token_round_trip [where e = test_env and cfg = approval_config and name = "''alice''"
      and expire = 900001000 and w = None and now = 1000 and now' = 1000,
      OF test_token_alice test_iso_900001000]
  by (simp add: approval_config_def)

text \<open>
  C3. Claimed: verification fails with the expiry error from the instant
  \<open>issued + T\<close> on. The comparison of \<^verbatim>\<open>validate_slug\<close> is strict
  (\<^verbatim>\<open>now > expire\<close>): at the instant of expiry itself the token still verifies.
\<close>

theorem token_valid_at_expiry_instant:
  "validate_slug test_env
     (drop (length ''/confirm/'')
        (generate_approval_url approval_config test_env ''alice'' None 1000))
     (secret_key approval_config) (1000 + 900000000)
   = Inr \<lparr> data_username = ''alice'', data_expire = 1000 + 900000000 \<rparr>"
  by code_simp

text \<open>
  C3, amended. A token generated at \<open>issued\<close> with expiry \<open>expire\<close>
  (\<open>issued\<close> plus 15 minutes by default) verifies at every instant up to and
  including \<open>expire\<close>, and fails with the expiry error at every instant after it.
\<close>

theorem validate_slug_expiry:
  assumes "unsign_object e (secret_key cfg)
             (sign_object e (secret_key cfg)
                \<lparr> obj_username = name, obj_expire = isoformat e expire \<rparr>)
           = Inr \<lparr> obj_username = name, obj_expire = isoformat e expire \<rparr>"
    and "fromisoformat e (isoformat e expire) = Some expire"
    and "expire = (case w of None \<Rightarrow> issued + 900000000 | Some t \<Rightarrow> t)"
    and "slug = drop (length ''/confirm/'') (generate_approval_url cfg e name w issued)"
  shows "(now \<le> expire \<longrightarrow>
            validate_slug e slug (secret_key cfg) now
            = Inr \<lparr> data_username = name, data_expire = expire \<rparr>)
       \<and> (expire < now \<longrightarrow>
            validate_slug e slug (secret_key cfg) now = Inl (ValueError URLExpired))"
  using validate_generated_slug [OF assms(1,2), where w = w and now = issued and now' = now]
    assms(3,4)
  by simp

theorem validate_slug_expiry_witness:
  "validate_slug test_env
     (drop (length ''/confirm/'')
        (generate_approval_url approval_config test_env ''alice'' None 1000))
     (secret_key approval_config) 900001000
   = Inr \<lparr> data_username = ''alice'', data_expire = 900001000 \<rparr>
   \<and> validate_slug test_env
     (drop (length ''/confirm/'')
        (generate_approval_url approval_config test_env ''alice'' None 1000))
     (secret_key approval_config) 900001001
   = Inl (ValueError URLExpired)"
  using validate_slug_expiry [where e = test_env and cfg = approval_config
      and name = "''alice''" and issued = 1000 and w = None and expire = 900001000
      and now = 900001000, OF test_token_alice test_iso_900001000 _ refl]
    validate_slug_expiry [where e = test_env and cfg = approval_config
      and name = "''alice''" and issued = 1000 and w = None and expire = 900001000
      and now = 900001001, OF test_token_alice test_iso_900001000 _ refl]
  by simp

section \<open>Properties of signup\<close>

text \<open>
  C4. Claimed: when the approval mail cannot be delivered, the new record is persisted
  all the same. \<^verbatim>\<open>create_user\<close> sends the mail before \<^verbatim>\<open>db.add\<close>, and catches
  nothing: the exception of the mail session leaves \<^verbatim>\<open>create_user\<close> and the record
  is not stored.
\<close>

theorem mail_failure_loses_record:
  "allow_self_approval_for approval_config \<noteq> None
   \<and> \<not> send_mail test_env (self_approval_server approval_config)
         \<lparr> msg_from = ''do-not-reply@my-domain.com'', msg_subject = ''Welcome'',
           msg_content = ''Navigate to ''
              @ generate_approval_url approval_config test_env ''bob'' None 0,
           msg_to = ''bounce@my-domain.com'' \<rparr>
   \<and> fst (create_user approval_config test_env test_db ''bob'' ''longpassword''
            \<lparr> kw_email = Some ''bounce@my-domain.com'', kw_has_2fa = Some False \<rparr> ''s'' 0)
       = Inl SMTPException
   \<and> UserInfo_find
         (snd (create_user approval_config test_env test_db ''bob'' ''longpassword''
                 \<lparr> kw_email = Some ''bounce@my-domain.com'', kw_has_2fa = Some False \<rparr> ''s'' 0))
         ''bob'' = None"
  by code_simp

text \<open>
  C4, amended. With self-approval configured and the address of the new record matching
  the pattern, a failure of the mail session aborts \<^verbatim>\<open>create_user\<close> with the
  exception of the mail session, which differs from the \<^verbatim>\<open>None\<close> returned when no
  record is created; the record store is left as it was. The premises are the checks
  and calls that \<^verbatim>\<open>create_user\<close> passes before it sends the mail.
\<close>

theorem create_user_mail_failure:
  assumes "\<not> user_exists e d (normalize_username e raw)"
    and "is_password_strong cfg e pw"
    and "validate_username e (normalize_username e raw)"
    and "enable_signup cfg"
    and "hashpw e pw salt = Inr encoded_pw"
    and "new_user_info e
           \<lparr> infos_username = normalize_username e raw, infos_password = encoded_pw,
             infos_email = kw_email kw, infos_has_2fa = kw_has_2fa kw,
             infos_is_authorized =
               (if open_signup cfg
                   \<or> normalize_username e raw \<in> admin_users cfg \<union> allowed_users cfg
                then Some True else None) \<rparr> = Some u"
    and "allow_self_approval_for cfg = Some pattern"
    and "email u = Some address"
    and "pattern address"
    and "send_approval_email cfg e address
           (generate_approval_url cfg e (normalize_username e raw) None now) = Inl x"
  shows "create_user cfg e d raw pw kw salt now = (Inl x, d)
       \<and> x = SMTPException
       \<and> fst (create_user cfg e d raw pw kw salt now) \<noteq> Inr None"
proof -
  from assms(10) have x: "x = SMTPException"
    by (simp add: send_approval_email_def Let_def split: if_splits)
  from assms have "create_user cfg e d raw pw kw salt now = (Inl x, d)"
    by (simp add: create_user_def Let_def)
  with x show ?thesis by simp
qed

theorem create_user_mail_failure_witness:
  "create_user approval_config test_env test_db ''bob'' ''longpassword''
     \<lparr> kw_email = Some ''bounce@my-domain.com'', kw_has_2fa = Some False \<rparr> ''s'' 0
   = (Inl SMTPException, test_db)"
proof -
  have "create_user approval_config test_env test_db ''bob'' ''longpassword''
          \<lparr> kw_email = Some ''bounce@my-domain.com'', kw_has_2fa = Some False \<rparr> ''s'' 0
        = (Inl SMTPException, test_db) \<and> SMTPException = SMTPException
        \<and> fst (create_user approval_config test_env test_db ''bob'' ''longpassword''
          \<lparr> kw_email = Some ''bounce@my-domain.com'', kw_has_2fa = Some False \<rparr> ''s'' 0)
          \<noteq> Inr None"
  proof (rule create_user_mail_failure [where pattern = "\<lambda>address. True"
        and address = "''bounce@my-domain.com''"
        and u = "\<lparr> username = ''bob'', password = ''s$longpassword'', is_authorized = False,
                   email = Some ''bounce@my-domain.com'', has_2fa = False, otp_secret = [] \<rparr>"])
    show "\<not> user_exists test_env test_db (normalize_username test_env ''bob'')"
      by code_simp
    show "is_password_strong approval_config test_env ''longpassword''"
      by code_simp
    show "validate_username test_env (normalize_username test_env ''bob'')"
      by code_simp
    show "enable_signup approval_config"
      by code_simp
    show "hashpw test_env ''longpassword'' ''s'' = Inr ''s$longpassword''"
      by code_simp
    show "new_user_info test_env
           \<lparr> infos_username = normalize_username test_env ''bob'',
             infos_password = ''s$longpassword'',
             infos_email = kw_email \<lparr> kw_email = Some ''bounce@my-domain.com'', kw_has_2fa = Some False \<rparr>,
             infos_has_2fa = kw_has_2fa \<lparr> kw_email = Some ''bounce@my-domain.com'', kw_has_2fa = Some False \<rparr>,
             infos_is_authorized =
               (if open_signup approval_config
                   \<or> normalize_username test_env ''bob''
                       \<in> admin_users approval_config \<union> allowed_users approval_config
                then Some True else None) \<rparr>
          = Some \<lparr> username = ''bob'', password = ''s$longpassword'', is_authorized = False,
                   email = Some ''bounce@my-domain.com'', has_2fa = False, otp_secret = [] \<rparr>"
      by code_simp
    show "allow_self_approval_for approval_config = Some (\<lambda>address. True)"
      by (simp add: approval_config_def example_config_def)
    show "email \<lparr> username = ''bob'', password = ''s$longpassword'', is_authorized = False,
                   email = Some ''bounce@my-domain.com'', has_2fa = False, otp_secret = [] \<rparr>
          = Some ''bounce@my-domain.com''"
      by simp
    show "True" by simp
    show "send_approval_email approval_config test_env ''bounce@my-domain.com''
            (generate_approval_url approval_config test_env (normalize_username test_env ''bob'') None 0)
          = Inl SMTPException"
      by code_simp
  qed
  then show ?thesis by simp
qed

text \<open>
  C5. Claimed: the result of \<^verbatim>\<open>create_user\<close> tells a taken username from a weak
  password and from an invalid username. All three leave by a bare \<^verbatim>\<open>return\<close>:
  signing up the stored \<open>alice\<close>, signing up with a short password and signing up
  with a space in the name give the same result.
\<close>

theorem rejections_indistinguishable:
  "user_exists test_env test_db (normalize_username test_env ''alice'')
   \<and> \<not> user_exists test_env test_db (normalize_username test_env ''bob'')
   \<and> \<not> is_password_strong example_config test_env ''pw''
   \<and> \<not> user_exists test_env test_db (normalize_username test_env ''b ob'')
   \<and> \<not> validate_username test_env (normalize_username test_env ''b ob'')
   \<and> fst (create_user example_config test_env test_db ''alice'' ''longpassword''
            \<lparr> kw_email = Some '''', kw_has_2fa = Some False \<rparr> ''s'' 0)
     = fst (create_user example_config test_env test_db ''bob'' ''pw''
            \<lparr> kw_email = Some '''', kw_has_2fa = Some False \<rparr> ''s'' 0)
   \<and> fst (create_user example_config test_env test_db ''alice'' ''longpassword''
            \<lparr> kw_email = Some '''', kw_has_2fa = Some False \<rparr> ''s'' 0)
     = fst (create_user example_config test_env test_db ''b ob'' ''longpassword''
            \<lparr> kw_email = Some '''', kw_has_2fa = Some False \<rparr> ''s'' 0)"
  by code_simp

text \<open>
  C5, amended. When a record for the normalized username exists, \<^verbatim>\<open>create_user\<close>
  returns \<^verbatim>\<open>None\<close> and stores nothing; a weak password and an invalid username
  give that same result.
\<close>

theorem create_user_rejected:
  assumes "user_exists e d (normalize_username e raw)
           \<or> \<not> is_password_strong cfg e pw
           \<or> \<not> validate_username e (normalize_username e raw)"
  shows "create_user cfg e d raw pw kw salt now = (Inr None, d)"
  using assms by (auto simp add: create_user_def Let_def)

theorem create_user_rejected_witness:
  "create_user example_config test_env test_db ''alice'' ''longpassword''
     \<lparr> kw_email = Some '''', kw_has_2fa = Some False \<rparr> ''s'' 0 = (Inr None, test_db)
   \<and> create_user example_config test_env test_db ''bob'' ''pw''
     \<lparr> kw_email = Some '''', kw_has_2fa = Some False \<rparr> ''s'' 0 = (Inr None, test_db)
   \<and> create_user example_config test_env test_db ''b ob'' ''longpassword''
     \<lparr> kw_email = Some '''', kw_has_2fa = Some False \<rparr> ''s'' 0 = (Inr None, test_db)"
proof -
  have taken: "user_exists test_env test_db (normalize_username test_env ''alice'')"
    by code_simp
  have weak: "\<not> is_password_strong example_config test_env ''pw''"
    by code_simp
  have invalid: "\<not> validate_username test_env (normalize_username test_env ''b ob'')"
    by code_simp
  show ?thesis
    using create_user_rejected [where e = test_env and d = test_db and raw = "''alice''"
        and cfg = example_config and pw = "''longpassword''"]
      create_user_rejected [where e = test_env and d = test_db and raw = "''bob''"
        and cfg = example_config and pw = "''pw''"]
      create_user_rejected [where e = test_env and d = test_db and raw = "''b ob''"
        and cfg = example_config and pw = "''longpassword''"]
      taken weak invalid
    by simp
qed

text \<open>
  C9. Claimed: \<^verbatim>\<open>change_password\<close> succeeds for every new password string.
  Nothing guards \<^verbatim>\<open>bcrypt.hashpw(new_password.encode(), bcrypt.gensalt())\<close>: where
  hashing raises, as for a password of 73 characters, the exception leaves
  \<^verbatim>\<open>change_password\<close> for an existing user too.
\<close>

theorem change_password_hashing_raises:
  "get_user test_env test_db ''alice'' = Some alice
   \<and> is_password_strong example_config test_env (replicate 73 CHR ''a'')
   \<and> change_password example_config test_env test_db ''alice'' (replicate 73 CHR ''a'') ''s''
     = Inl (ValueError PasswordTooLong)"
proof -
  have strong: "is_password_strong example_config test_env (replicate 73 CHR ''a'')"
    by code_simp
  have found: "get_user test_env test_db ''alice'' = Some alice"
    by (simp add: get_user_def UserInfo_find_def test_env_def test_db_def)
  have raised: "change_password example_config test_env test_db ''alice''
      (replicate 73 CHR ''a'') ''s'' = Inl (ValueError PasswordTooLong)"
    by (simp add: change_password_def test_env_def)
  from found strong raised show ?thesis
    by (intro conjI)
qed

text \<open>
  C9, amended. For an existing user and every new password that hashing accepts,
  among them the passwords that the password policy rejects, \<^verbatim>\<open>change_password\<close>
  stores the hash of the new password and succeeds: the record found under the name
  afterwards is the old one with the new hash. The password policy is not consulted: the
  outcome is the same under every configuration. Where hashing raises, its exception
  leaves \<^verbatim>\<open>change_password\<close>.
\<close>

theorem change_password_without_policy:
  assumes "get_user e d name = Some user"
  shows "(hashpw e new_password salt = Inr hashed \<longrightarrow>
            change_password cfg e d name new_password salt
              = Inr (d(normalize_username e name \<mapsto> user\<lparr> password := hashed \<rparr>))
            \<and> get_user e (d(normalize_username e name \<mapsto> user\<lparr> password := hashed \<rparr>)) name
              = Some (user\<lparr> password := hashed \<rparr>))
       \<and> (hashpw e new_password salt = Inl x \<longrightarrow>
            change_password cfg e d name new_password salt = Inl x)
       \<and> change_password cfg e d name new_password salt
           = change_password cfg' e d name new_password salt"
  using assms by (simp add: change_password_def get_user_def UserInfo_find_def)

theorem change_password_without_policy_witness:
  "\<not> is_password_strong example_config test_env ''x''
   \<and> change_password example_config test_env test_db ''alice'' ''x'' ''s''
     = Inr (test_db(''alice'' \<mapsto> alice\<lparr> password := ''s$x'' \<rparr>))
   \<and> change_password example_config test_env test_db ''alice'' (replicate 73 CHR ''a'') ''s''
     = Inl (ValueError PasswordTooLong)"
proof -
  have weak: "\<not> is_password_strong example_config test_env ''x''"
    by code_simp
  have found: "get_user test_env test_db ''alice'' = Some alice"
    by (simp add: get_user_def UserInfo_find_def test_env_def test_db_def)
  have hashed: "hashpw test_env ''x'' ''s'' = Inr ''s$x''"
    by code_simp
  have refused: "hashpw test_env (replicate 73 CHR ''a'') ''s'' = Inl (ValueError PasswordTooLong)"
    by code_simp
  have name: "normalize_username test_env ''alice'' = ''alice''"
    by (simp add: test_env_def)
  from change_password_without_policy [OF found, where new_password = "''x''"
      and salt = "''s''" and hashed = "''s$x''" and cfg = example_config]
    hashed name
  have ok: "change_password example_config test_env test_db ''alice'' ''x'' ''s''
     = Inr (test_db(''alice'' \<mapsto> alice\<lparr> password := ''s$x'' \<rparr>))"
    by simp
  from change_password_without_policy [OF found, where new_password = "replicate 73 CHR ''a''"
      and salt = "''s''" and x = "ValueError PasswordTooLong" and cfg = example_config]
    refused
  have raised: "change_password example_config test_env test_db ''alice''
      (replicate 73 CHR ''a'') ''s'' = Inl (ValueError PasswordTooLong)"
    by simp
  from weak ok raised show ?thesis
    by (intro conjI)
qed

section \<open>Properties of initialisation, authentication and confirmation\<close>

text \<open>
  C8. With self-approval configured, \<^verbatim>\<open>setup_self_approval\<close> raises exactly when the
  secret key has fewer than 8 characters; a key of exactly 8 characters is accepted.
\<close>

theorem setup_self_approval_secret_key:
  assumes "allow_self_approval_for cfg = Some pattern"
  shows "(setup_self_approval cfg = Inl (ValueError ShortSecretKey)
            \<longleftrightarrow> length (secret_key cfg) < 8)
       \<and> (isl (setup_self_approval cfg) \<longleftrightarrow> length (secret_key cfg) < 8)
       \<and> (length (secret_key cfg) = 8
            \<longrightarrow> setup_self_approval cfg = Inr (cfg\<lparr> ask_email_on_signup := True \<rparr>))"
  using assms by (simp add: setup_self_approval_def Let_def)

theorem setup_self_approval_secret_key_witness:
  "length (secret_key approval_config) = 8
   \<and> setup_self_approval approval_config
     = Inr (approval_config\<lparr> ask_email_on_signup := True \<rparr>)
   \<and> setup_self_approval (approval_config\<lparr> secret_key := ''1234567'' \<rparr>)
     = Inl (ValueError ShortSecretKey)"
  using setup_self_approval_secret_key [of approval_config "\<lambda>address. True"]
    setup_self_approval_secret_key [of "approval_config\<lparr> secret_key := ''1234567'' \<rparr>"
      "\<lambda>address. True"]
  by (simp add: approval_config_def example_config_def)

text \<open>
  C7. A login with the correct password for a record that is not authorized and a
  login with an incorrect password, for the same username against the same lockout
  table and clock, end alike: both return no username and leave the same lockout
  table behind.
\<close>

theorem authenticate_pending_like_wrong_password:
  assumes "login_username data1 = login_username data2"
    and "get_user e d1 (normalize_username e (login_username data1)) = Some u1"
    and "get_user e d2 (normalize_username e (login_username data2)) = Some u2"
    and "\<not> is_authorized u1"
    and "is_valid_password e u1 (login_password data1)"
    and "\<not> is_valid_password e u2 (login_password data2)"
  shows "authenticate cfg e d1 la t_blocked t_attempt data1
           = authenticate cfg e d2 la t_blocked t_attempt data2
       \<and> fst (authenticate cfg e d1 la t_blocked t_attempt data1) = None"
  using assms by (simp add: authenticate_def Let_def)

theorem authenticate_pending_like_wrong_password_witness:
  "authenticate example_config test_env test_db Map.empty 0 0
         \<lparr> login_username = ''alice'', login_password = ''correct horse'', login_2fa = None \<rparr>
     = authenticate example_config test_env (test_db(''alice'' \<mapsto> alice\<lparr> is_authorized := True \<rparr>))
         Map.empty 0 0
         \<lparr> login_username = ''alice'', login_password = ''wrong'', login_2fa = None \<rparr>
   \<and> fst (authenticate example_config test_env test_db Map.empty 0 0
         \<lparr> login_username = ''alice'', login_password = ''correct horse'', login_2fa = None \<rparr>)
     = None"
proof -
  have same: "login_username
        \<lparr> login_username = ''alice'', login_password = ''correct horse'', login_2fa = None \<rparr>
      = login_username
        \<lparr> login_username = ''alice'', login_password = ''wrong'', login_2fa = None \<rparr>"
    by simp
  have found1: "get_user test_env test_db
      (normalize_username test_env
         (login_username \<lparr> login_username = ''alice'', login_password = ''correct horse'',
                            login_2fa = None \<rparr>)) = Some alice"
    by (simp add: get_user_def UserInfo_find_def test_env_def test_db_def)
  have found2: "get_user test_env (test_db(''alice'' \<mapsto> alice\<lparr> is_authorized := True \<rparr>))
      (normalize_username test_env
         (login_username \<lparr> login_username = ''alice'', login_password = ''wrong'',
                            login_2fa = None \<rparr>)) = Some (alice\<lparr> is_authorized := True \<rparr>)"
    by (simp add: get_user_def UserInfo_find_def test_env_def test_db_def)
  have pending: "\<not> is_authorized alice"
    by (simp add: alice_def)
  have right: "is_valid_password test_env alice
      (login_password \<lparr> login_username = ''alice'', login_password = ''correct horse'',
                         login_2fa = None \<rparr>)"
    by code_simp
  have wrong: "\<not> is_valid_password test_env (alice\<lparr> is_authorized := True \<rparr>)
      (login_password \<lparr> login_username = ''alice'', login_password = ''wrong'',
                         login_2fa = None \<rparr>)"
    by code_simp
  show ?thesis
    by (rule authenticate_pending_like_wrong_password
        [OF same found1 found2 pending right wrong])
qed

text \<open>
  C10. With self-approval enabled, \<^verbatim>\<open>AuthorizeHandler.get\<close> raises, rendering no page,
  exactly when the token validates and the record store holds no record for the
  username of the token; the exception is the \<^verbatim>\<open>AttributeError\<close> of reading
  \<^verbatim>\<open>is_authorized\<close> from \<^verbatim>\<open>None\<close>.
\<close>

theorem AuthorizeHandler_get_missing_record:
  assumes "allow_self_approval_for cfg = Some pattern"
  shows "(validate_slug e slug (secret_key cfg) now = Inr data
            \<and> UserInfo_find d (data_username data) = None
            \<longrightarrow> AuthorizeHandler_get cfg e d slug now = Inl AttributeError)
       \<and> (isl (AuthorizeHandler_get cfg e d slug now)
            \<longleftrightarrow> (\<exists>data'. validate_slug e slug (secret_key cfg) now = Inr data'
                         \<and> UserInfo_find d (data_username data') = None))"
proof -
  have verr: "\<And>x. validate_slug e slug (secret_key cfg) now = Inl x \<Longrightarrow> \<exists>v. x = ValueError v"
    by (auto simp add: validate_slug_def split: sum.splits option.splits if_splits)
  show ?thesis
  proof (cases "validate_slug e slug (secret_key cfg) now")
    case (Inl x)
    with verr obtain v where "x = ValueError v" by blast
    with Inl assms show ?thesis
      by (simp add: AuthorizeHandler_get_def)
  next
    case (Inr data')
    with assms show ?thesis
      by (auto simp add: AuthorizeHandler_get_def UserInfo_change_authorization_def
          UserInfo_find_def Let_def split: option.splits)
  qed
qed

lemma test_token_ghost:
  "validate_slug test_env
     (drop (length ''/confirm/'')
        (generate_approval_url approval_config test_env ''ghost'' None 1000))
     (secret_key approval_config) 2000
   = Inr \<lparr> data_username = ''ghost'', data_expire = 900001000 \<rparr>"
  by code_simp

theorem AuthorizeHandler_get_missing_record_witness:
  "AuthorizeHandler_get approval_config test_env test_db
     (drop (length ''/confirm/'')
        (generate_approval_url approval_config test_env ''ghost'' None 1000)) 2000
   = Inl AttributeError"
proof -
  have enabled: "allow_self_approval_for approval_config = Some (\<lambda>address. True)"
    by (simp add: approval_config_def example_config_def)
  have missing: "UserInfo_find test_db
      (data_username \<lparr> data_username = ''ghost'', data_expire = 900001000 \<rparr>) = None"
    by (simp add: UserInfo_find_def test_db_def)
  from AuthorizeHandler_get_missing_record [OF enabled, of test_env
      "drop (length ''/confirm/'')
         (generate_approval_url approval_config test_env ''ghost'' None 1000)"
      2000 "\<lparr> data_username = ''ghost'', data_expire = 900001000 \<rparr>" test_db]
    test_token_ghost missing
  show ?thesis by blast
qed

end
